theory Spec2Isabelle
  imports Main
begin

section \<open>The user model of user.go\<close>

text \<open>
  The file user.go declares the user record, its status type, the changeset of an update,
  the validation methods of the three, the operation names, the service interface and the
  wrapper for unexpected store errors. Strings are Go strings (byte sequences), here
  \<^typ>\<open>string\<close>. A pointer that the code tests against nil or dereferences is an
  \<^typ>\<open>'a option\<close>, with \<^term>\<open>None\<close> for nil.
\<close>

subsection \<open>Errors\<close>

text \<open>
  Modelled from the spec: the error codes. The constants EInvalid and EInternal are used by
  user.go and declared elsewhere in the repository; section 7 of the specification names
  the three kinds Invalid, NotFound and Internal. Any other code a foreign value of the
  Error struct may carry is \<open>EOther\<close>.
\<close>

datatype code = EInternal | ENotFound | EInvalid | EOther string

text \<open>
  A value of Go's interface type \<open>error\<close> is nil (\<^term>\<open>None\<close> of
  \<open>error option\<close>) or a value of some dynamic type. The struct \<open>Error\<close> is built
  by user.go with the fields Code, Msg, Op and Err; a field that a struct literal leaves out
  has its zero value (the empty string, nil). Every other dynamic type is \<open>Opaque\<close>,
  tagged with a description.
\<close>

datatype error =
  Error (Code: code) (Msg: string) (Op: string) (Err: "error option")
| Opaque string

text \<open>A nil pointer dereference stops the program; it is the only panic of user.go.\<close>

datatype panic = NilPointerDereference

subsection \<open>UserStatus\<close>

type_synonym UserStatus = string

text \<open>
  \<^verbatim>\<open>func (u *UserStatus) Valid() error\<close>: the receiver is a pointer, and
  \<^verbatim>\<open>*u\<close> on a nil receiver panics.
\<close>

definition UserStatus_Valid :: "UserStatus option \<Rightarrow> panic + error option" where
  "UserStatus_Valid u =
     (case u of
        None \<Rightarrow> Inl NilPointerDereference
      | Some s \<Rightarrow>
          if s \<noteq> ''active'' \<and> s \<noteq> ''inactive''
          then Inr (Some (Error EInvalid ''Invalid user status'' '''' None))
          else Inr None)"

subsection \<open>Status\<close>

text \<open>
  Modelled from the spec: the type Status of the field \<open>User.Status\<close> and its method
  Valid, both declared elsewhere in the repository. Section 3 of the specification: the
  status is "one of the enumerated values active | inactive; required; any other value is
  invalid", and a failed validation is an error of kind Invalid. The specification fixes
  the kind of the error only; its message is left empty here.
\<close>

type_synonym Status = string

definition Status_Valid :: "Status \<Rightarrow> error option" where
  "Status_Valid s =
     (if s = ''active'' \<or> s = ''inactive'' then None
      else Some (Error EInvalid [] [] None))"

subsection \<open>User\<close>

text \<open>
  Modelled from the spec: the type ID, declared elsewhere in the repository, is an opaque
  identifier whose zero value means "unset"; here a natural number, unset when 0.
\<close>

type_synonym ID = nat

record User =
  ID :: ID
  Name :: string
  OAuthID :: string
  Status :: Status

text \<open>
  \<^verbatim>\<open>func (u *User) Valid() error { return u.Status.Valid() }\<close>: reading the field of
  a nil receiver panics.
\<close>

definition User_Valid :: "User option \<Rightarrow> panic + error option" where
  "User_Valid u =
     (case u of
        None \<Rightarrow> Inl NilPointerDereference
      | Some r \<Rightarrow> Inr (Status_Valid (Status r)))"

subsection \<open>Operation names\<close>

definition OpFindUserByID :: string where "OpFindUserByID = ''FindUserByID''"
definition OpFindUser :: string where "OpFindUser = ''FindUser''"
definition OpFindUsers :: string where "OpFindUsers = ''FindUsers''"
definition OpCreateUser :: string where "OpCreateUser = ''CreateUser''"
definition OpPutUser :: string where "OpPutUser = ''PutUser''"
definition OpUpdateUser :: string where "OpUpdateUser = ''UpdateUser''"
definition OpDeleteUser :: string where "OpDeleteUser = ''DeleteUser''"

subsection \<open>UserUpdate and UserFilter\<close>

text \<open>The fields of a changeset and of a filter are pointers: nil when the field is not set.\<close>

record UserUpdate =
  upd_Name :: "string option"
  upd_Status :: "Status option"

text \<open>
  \<^verbatim>\<open>func (uu UserUpdate) Valid() error\<close>: a value receiver; the status is
  dereferenced only after the nil test.
\<close>

definition UserUpdate_Valid :: "UserUpdate \<Rightarrow> error option" where
  "UserUpdate_Valid uu =
     (case upd_Status uu of
        None \<Rightarrow> None
      | Some s \<Rightarrow> Status_Valid s)"

record UserFilter =
  filter_ID :: "ID option"
  filter_Name :: "string option"

subsection \<open>ErrInternalUserServiceError\<close>

text \<open>
  \<^verbatim>\<open>fmt.Sprintf("%v", err)\<close> prints \<^verbatim>\<open><nil>\<close> for a nil error and the
  result of the method \<^verbatim>\<open>Error()\<close> of any other. That method is declared with each
  error type, none of them in user.go, so it is the parameter \<open>str\<close>.
\<close>

definition Sprintf_v :: "(error \<Rightarrow> string) \<Rightarrow> error option \<Rightarrow> string" where
  "Sprintf_v str err = (case err of None \<Rightarrow> ''<nil>'' | Some e \<Rightarrow> str e)"

definition ErrInternalUserServiceError ::
  "(error \<Rightarrow> string) \<Rightarrow> string \<Rightarrow> error option \<Rightarrow> error" where
  "ErrInternalUserServiceError str op err =
     Error EInternal (''unexpected error in users; Err: '' @ Sprintf_v str err) op err"

subsection \<open>The external representation of a user\<close>

text \<open>
  The struct tags of \<open>User\<close> in user.go are
  \<^verbatim>\<open>json:"id,omitempty"\<close>, \<^verbatim>\<open>json:"name"\<close>, \<^verbatim>\<open>json:"oauthID,omitempty"\<close>
  and \<^verbatim>\<open>json:"status"\<close>. A tag gives the key of the field and whether the option
  omitempty is set.
\<close>

record json_tag =
  tag_name :: string
  tag_omitempty :: bool

datatype field_value = IDValue ID | StringValue string

text \<open>The fields of the struct in the order of their declaration, each with its tag.\<close>

definition User_fields :: "User \<Rightarrow> (json_tag \<times> field_value) list" where
  "User_fields u =
     [(\<lparr>tag_name = ''id'', tag_omitempty = True\<rparr>, IDValue (ID u)),
      (\<lparr>tag_name = ''name'', tag_omitempty = False\<rparr>, StringValue (Name u)),
      (\<lparr>tag_name = ''oauthID'', tag_omitempty = True\<rparr>, StringValue (OAuthID u)),
      (\<lparr>tag_name = ''status'', tag_omitempty = False\<rparr>, StringValue (Status u))]"

text \<open>
  The encoder is Go's encoding/json. It writes the fields of a struct in their order, each
  under the key of its tag, and leaves out a field with the option omitempty whose value is
  empty: the number 0, the empty string.
\<close>

fun isEmptyValue :: "field_value \<Rightarrow> bool" where
  "isEmptyValue (IDValue i) = (i = 0)"
| "isEmptyValue (StringValue s) = (s = [])"

definition omitted :: "json_tag \<times> field_value \<Rightarrow> bool" where
  "omitted f = (tag_omitempty (fst f) \<and> isEmptyValue (snd f))"

definition marshal_fields :: "(json_tag \<times> field_value) list \<Rightarrow> (string \<times> field_value) list" where
  "marshal_fields fs = map (\<lambda>f. (tag_name (fst f), snd f)) (filter (\<lambda>f. \<not> omitted f) fs)"

definition User_external :: "User \<Rightarrow> (string \<times> field_value) list" where
  "User_external u = marshal_fields (User_fields u)"

section \<open>The service contract\<close>

text \<open>
  Modelled from the spec: the implementations of the interface \<open>UserService\<close>. user.go
  declares the interface only; the store behind it and the code that calls it are outside
  this file. Section 4.1 of the specification gives the operations:

  \<^item> Create: "fails with Invalid if user.Status fails validation before any store
    interaction is attempted"; "on success, mutates the caller-supplied user value in place
    by assigning the newly allocated ID".
  \<^item> FindByID: "User or fails with NotFound if no record has that identifier".
  \<^item> Update: "returns the full new state of the record after applying the changeset;
    fails with Invalid if the changeset's Status (when present) is not a recognized
    literal; fails with NotFound if id does not exist. Only fields present in the changeset
    are modified; absent fields retain their prior value."
  \<^item> Delete: "removes the record; fails with NotFound if id does not exist".

  The store keeps the records by identifier. Every interaction with the store is written to
  the list \<open>invoked\<close> (the operation's name, the oldest first), so that an operation
  that leaves the list as it was did not reach the store. The scheme that generates
  identifiers is outside the specification: it is the parameter \<open>alloc\<close>, which reads
  the records of the store and proposes an identifier. Section 3 calls the identifier
  "unique" and "assigned by the store at creation time", and section 8 has it "non-empty"
  after a successful Create: the store takes the proposal only when it is not the unset
  identifier and no record has it, and fails otherwise. A failure of the store is "wrapped
  with an internal classification that records the operation name and the original error
  message" (section 4.1), which is what \<open>ErrInternalUserServiceError\<close> of user.go does;
  \<open>str\<close> is again the method \<^verbatim>\<open>Error()\<close>.
\<close>

record store =
  records :: "ID \<rightharpoonup> User"
  invoked :: "string list"

type_synonym allocator = "(ID \<rightharpoonup> User) \<Rightarrow> ID"

definition not_found :: "string \<Rightarrow> error" where
  "not_found op = Error ENotFound [] op None"

text \<open>A changeset replaces the fields it holds and keeps the others.\<close>

definition apply_update :: "UserUpdate \<Rightarrow> User \<Rightarrow> User" where
  "apply_update upd r =
     r\<lparr>Name := (case upd_Name upd of None \<Rightarrow> Name r | Some n \<Rightarrow> n),
       Status := (case upd_Status upd of None \<Rightarrow> Status r | Some s \<Rightarrow> s)\<rparr>"

text \<open>The four interactions with the store.\<close>

definition store_insert :: "allocator \<Rightarrow> User \<Rightarrow> store \<Rightarrow> (error + ID) \<times> store" where
  "store_insert alloc u st =
     (let i = alloc (records st)
      in if i \<noteq> 0 \<and> records st i = None
         then (Inr i, st\<lparr>records := (records st)(i \<mapsto> u\<lparr>ID := i\<rparr>),
                         invoked := invoked st @ [OpCreateUser]\<rparr>)
         else (Inl (Opaque ''no unused identifier''),
               st\<lparr>invoked := invoked st @ [OpCreateUser]\<rparr>))"

definition store_get :: "ID \<Rightarrow> store \<Rightarrow> User option \<times> store" where
  "store_get i st = (records st i, st\<lparr>invoked := invoked st @ [OpFindUserByID]\<rparr>)"

definition store_patch :: "ID \<Rightarrow> UserUpdate \<Rightarrow> store \<Rightarrow> User option \<times> store" where
  "store_patch i upd st =
     (case records st i of
        None \<Rightarrow> (None, st\<lparr>invoked := invoked st @ [OpUpdateUser]\<rparr>)
      | Some r \<Rightarrow>
          (Some (apply_update upd r),
           st\<lparr>records := (records st)(i \<mapsto> apply_update upd r),
              invoked := invoked st @ [OpUpdateUser]\<rparr>))"

definition store_remove :: "ID \<Rightarrow> store \<Rightarrow> bool \<times> store" where
  "store_remove i st =
     (case records st i of
        None \<Rightarrow> (False, st\<lparr>invoked := invoked st @ [OpDeleteUser]\<rparr>)
      | Some r \<Rightarrow>
          (True, st\<lparr>records := (records st)(i := None),
                    invoked := invoked st @ [OpDeleteUser]\<rparr>))"

text \<open>
  The operations of the service. \<open>CreateUser\<close> takes a pointer to the user and writes
  the identifier through it: the model returns the error, the user as the caller sees it
  after the call, and the store.
\<close>

definition CreateUser ::
  "(error \<Rightarrow> string) \<Rightarrow> allocator \<Rightarrow> User \<Rightarrow> store \<Rightarrow> error option \<times> User \<times> store" where
  "CreateUser str alloc u st =
     (case Status_Valid (Status u) of
        Some e \<Rightarrow> (Some e, u, st)
      | None \<Rightarrow>
          (case store_insert alloc u st of
             (Inl e, st') \<Rightarrow>
               (Some (ErrInternalUserServiceError str OpCreateUser (Some e)), u, st')
           | (Inr i, st') \<Rightarrow> (None, u\<lparr>ID := i\<rparr>, st')))"

definition FindUserByID :: "ID \<Rightarrow> store \<Rightarrow> (error + User) \<times> store" where
  "FindUserByID i st =
     (case store_get i st of
        (None, st') \<Rightarrow> (Inl (not_found OpFindUserByID), st')
      | (Some r, st') \<Rightarrow> (Inr r, st'))"

definition UpdateUser :: "ID \<Rightarrow> UserUpdate \<Rightarrow> store \<Rightarrow> (error + User) \<times> store" where
  "UpdateUser i upd st =
     (case UserUpdate_Valid upd of
        Some e \<Rightarrow> (Inl e, st)
      | None \<Rightarrow>
          (case store_patch i upd st of
             (None, st') \<Rightarrow> (Inl (not_found OpUpdateUser), st')
           | (Some r, st') \<Rightarrow> (Inr r, st')))"

definition DeleteUser :: "ID \<Rightarrow> store \<Rightarrow> error option \<times> store" where
  "DeleteUser i st =
     (case store_remove i st of
        (False, st') \<Rightarrow> (Some (not_found OpDeleteUser), st')
      | (True, st') \<Rightarrow> (None, st'))"

section \<open>Properties\<close>

subsection \<open>Validation of a status\<close>

text \<open>
  C2. For every status value s of type UserStatus, s.Valid() returns no error exactly when
  s is "active" or "inactive"; for any other string it returns an error whose code is
  EInvalid. (A status value is a non-nil receiver.)
\<close>

theorem UserStatus_Valid_iff:
  "(UserStatus_Valid (Some s) = Inr None) = (s = ''active'' \<or> s = ''inactive'')
   \<and> (if s = ''active'' \<or> s = ''inactive''
      then UserStatus_Valid (Some s) = Inr None
      else \<exists>e. UserStatus_Valid (Some s) = Inr (Some e) \<and> Code e = EInvalid)"
  by (simp add: UserStatus_Valid_def)

theorem UserStatus_Valid_iff_witness:
  "UserStatus_Valid (Some ''active'') = Inr None
   \<and> UserStatus_Valid (Some ''inactive'') = Inr None
   \<and> UserStatus_Valid (Some ''pending'') \<noteq> Inr None
   \<and> (\<exists>e. UserStatus_Valid (Some ''pending'') = Inr (Some e) \<and> Code e = EInvalid)"
  using UserStatus_Valid_iff [of "''active''"] UserStatus_Valid_iff [of "''inactive''"]
    UserStatus_Valid_iff [of "''pending''"]
  by simp

subsection \<open>Validation of a user\<close>

text \<open>
  C1. For every User value u, u.Valid() succeeds exactly when u.Status.Valid() succeeds,
  which is exactly when the status is "active" or "inactive"; the fields ID, Name and
  OAuthID have no effect on the result.
\<close>

theorem User_Valid_iff_Status:
  "User_Valid (Some u) = Inr (Status_Valid (Status u))
   \<and> (User_Valid (Some u) = Inr None) = (Status_Valid (Status u) = None)
   \<and> (User_Valid (Some u) = Inr None) = (Status u = ''active'' \<or> Status u = ''inactive'')
   \<and> User_Valid (Some (u\<lparr>ID := i, Name := n, OAuthID := oa\<rparr>)) = User_Valid (Some u)"
  by (simp add: User_Valid_def Status_Valid_def)

theorem User_Valid_iff_Status_witness:
  "User_Valid (Some \<lparr>ID = 0, Name = [], OAuthID = [], Status = ''active''\<rparr>) = Inr None
   \<and> User_Valid (Some \<lparr>ID = 7, Name = ''Alice'', OAuthID = ''x'', Status = ''inactive''\<rparr>)
       = Inr None
   \<and> User_Valid (Some \<lparr>ID = 7, Name = ''Alice'', OAuthID = ''x'', Status = ''pending''\<rparr>)
       \<noteq> Inr None"
  using
    User_Valid_iff_Status
      [of "\<lparr>ID = 0, Name = [], OAuthID = [], Status = ''active''\<rparr>"]
    User_Valid_iff_Status
      [of "\<lparr>ID = 7, Name = ''Alice'', OAuthID = ''x'', Status = ''inactive''\<rparr>"]
    User_Valid_iff_Status
      [of "\<lparr>ID = 7, Name = ''Alice'', OAuthID = ''x'', Status = ''pending''\<rparr>"]
  by (simp add: User_Valid_def Status_Valid_def)

subsection \<open>Validation of a changeset\<close>

text \<open>
  C3. For every changeset c, c.Valid() succeeds when c.Status is nil, whatever c.Name is;
  when c.Status is present, c.Valid() returns what c.Status.Valid() returns, so it succeeds
  exactly when that does.
\<close>

theorem UserUpdate_Valid_cases:
  "UserUpdate_Valid \<lparr>upd_Name = n, upd_Status = None\<rparr> = None
   \<and> UserUpdate_Valid \<lparr>upd_Name = n, upd_Status = Some s\<rparr> = Status_Valid s
   \<and> (UserUpdate_Valid \<lparr>upd_Name = n, upd_Status = Some s\<rparr> = None)
       = (Status_Valid s = None)"
  by (simp add: UserUpdate_Valid_def)

theorem UserUpdate_Valid_cases_witness:
  "UserUpdate_Valid \<lparr>upd_Name = Some ''Bob'', upd_Status = None\<rparr> = None
   \<and> UserUpdate_Valid \<lparr>upd_Name = None, upd_Status = None\<rparr> = None
   \<and> UserUpdate_Valid \<lparr>upd_Name = None, upd_Status = Some ''active''\<rparr> = None
   \<and> UserUpdate_Valid \<lparr>upd_Name = Some ''Bob'', upd_Status = Some ''pending''\<rparr>
       = Some (Error EInvalid [] [] None)"
  using UserUpdate_Valid_cases [of "Some ''Bob''" "''pending''"]
    UserUpdate_Valid_cases [of None "''active''"]
  by (simp add: Status_Valid_def)

subsection \<open>Wrapping a store error\<close>

text \<open>
  C4. For every operation name op and every store error err (a non-nil error), the error
  that ErrInternalUserServiceError(op, err) returns has the code EInternal, the operation
  op, the cause err, and a message that ends with the message of err.
\<close>

theorem ErrInternalUserServiceError_fields:
  "Code (ErrInternalUserServiceError str op (Some e)) = EInternal
   \<and> Op (ErrInternalUserServiceError str op (Some e)) = op
   \<and> Err (ErrInternalUserServiceError str op (Some e)) = Some e
   \<and> Msg (ErrInternalUserServiceError str op (Some e))
       = ''unexpected error in users; Err: '' @ str e"
  by (simp add: ErrInternalUserServiceError_def Sprintf_v_def)

theorem ErrInternalUserServiceError_fields_witness:
  "ErrInternalUserServiceError (\<lambda>e. case e of Opaque s \<Rightarrow> s | Error c m p x \<Rightarrow> m)
     OpCreateUser (Some (Opaque ''disk full''))
   = Error EInternal ''unexpected error in users; Err: disk full'' ''CreateUser''
       (Some (Opaque ''disk full''))"
  using ErrInternalUserServiceError_fields
    [of "\<lambda>e. case e of Opaque s \<Rightarrow> s | Error c m p x \<Rightarrow> m" OpCreateUser
      "Opaque ''disk full''"]
  by (simp add: ErrInternalUserServiceError_def Sprintf_v_def OpCreateUser_def)

text \<open>
  C9. ErrInternalUserServiceError wraps whatever it is given: for every op and every err,
  the result has the code EInternal and the message "unexpected error in users; Err: "
  followed by the formatting of err, which is "<nil>" for a nil err and the text of its
  method Error() for every other, errors that already carry the code EInvalid or ENotFound
  included: these are wrapped like any other and kept as the cause.
\<close>

theorem ErrInternalUserServiceError_unconditional:
  "Code (ErrInternalUserServiceError str op err) = EInternal
   \<and> Msg (ErrInternalUserServiceError str op None) = ''unexpected error in users; Err: <nil>''
   \<and> Msg (ErrInternalUserServiceError str op (Some e))
       = ''unexpected error in users; Err: '' @ str e
   \<and> ErrInternalUserServiceError str op (Some (Error EInvalid m p c))
       = Error EInternal (''unexpected error in users; Err: '' @ str (Error EInvalid m p c)) op
           (Some (Error EInvalid m p c))
   \<and> ErrInternalUserServiceError str op (Some (Error ENotFound m p c))
       = Error EInternal (''unexpected error in users; Err: '' @ str (Error ENotFound m p c)) op
           (Some (Error ENotFound m p c))
   \<and> Msg (ErrInternalUserServiceError str op err)
       = ''unexpected error in users; Err: '' @ Sprintf_v str err
   \<and> Sprintf_v str None = ''<nil>'' \<and> Sprintf_v str (Some e) = str e"
  by (simp add: ErrInternalUserServiceError_def Sprintf_v_def)

theorem ErrInternalUserServiceError_unconditional_witness:
  "ErrInternalUserServiceError (\<lambda>e. case e of Opaque s \<Rightarrow> s | Error c m p x \<Rightarrow> m)
     OpFindUser None
   = Error EInternal ''unexpected error in users; Err: <nil>'' ''FindUser'' None
   \<and> ErrInternalUserServiceError (\<lambda>e. case e of Opaque s \<Rightarrow> s | Error c m p x \<Rightarrow> m)
     OpFindUser (Some (Error ENotFound ''user not found'' [] None))
   = Error EInternal ''unexpected error in users; Err: user not found'' ''FindUser''
       (Some (Error ENotFound ''user not found'' [] None))
   \<and> Msg (ErrInternalUserServiceError (\<lambda>e. case e of Opaque s \<Rightarrow> s | Error c m p x \<Rightarrow> m)
       OpFindUser (Some (Opaque ''disk full'')))
   = ''unexpected error in users; Err: disk full''"
  using ErrInternalUserServiceError_unconditional
    [of "\<lambda>e. case e of Opaque s \<Rightarrow> s | Error c m p x \<Rightarrow> m" OpFindUser None
      "Opaque ''disk full''" "''user not found''" "[]" None]
  by (simp add: ErrInternalUserServiceError_def Sprintf_v_def OpFindUser_def)

subsection \<open>The external representation\<close>

text \<open>
  C8. For every user, the external representation has the keys id, name, oauthID and
  status, in this order and spelt so, where id is left out exactly when the ID is unset
  (zero) and oauthID exactly when the OAuthID is the empty string; every key that is
  written carries the value of its field.
\<close>

theorem User_external_keys:
  "map fst (User_external u)
     = (if ID u = 0 then [] else [''id'']) @ [''name'']
       @ (if OAuthID u = [] then [] else [''oauthID'']) @ [''status'']
   \<and> set (map fst (User_external u)) \<subseteq> {''id'', ''name'', ''oauthID'', ''status''}
   \<and> (''id'' \<in> set (map fst (User_external u))) = (ID u \<noteq> 0)
   \<and> (''oauthID'' \<in> set (map fst (User_external u))) = (OAuthID u \<noteq> [])
   \<and> map_of (User_external u) ''id'' = (if ID u = 0 then None else Some (IDValue (ID u)))
   \<and> map_of (User_external u) ''oauthID''
       = (if OAuthID u = [] then None else Some (StringValue (OAuthID u)))"
  by (simp add: User_external_def marshal_fields_def User_fields_def omitted_def)

theorem User_external_keys_witness:
  "User_external \<lparr>ID = 0, Name = ''Alice'', OAuthID = [], Status = ''active''\<rparr>
     = [(''name'', StringValue ''Alice''), (''status'', StringValue ''active'')]
   \<and> map fst (User_external \<lparr>ID = 5, Name = ''Alice'', OAuthID = ''gh-1'', Status = ''active''\<rparr>)
     = [''id'', ''name'', ''oauthID'', ''status'']"
  using
    User_external_keys [of "\<lparr>ID = 0, Name = ''Alice'', OAuthID = [], Status = ''active''\<rparr>"]
    User_external_keys [of "\<lparr>ID = 5, Name = ''Alice'', OAuthID = ''gh-1'', Status = ''active''\<rparr>"]
  by (simp add: User_external_def marshal_fields_def User_fields_def omitted_def)

text \<open>
  C10. In the external representation of a user the keys name and status are always
  written, with the values of the fields, also when the value is the empty string; id and
  oauthID are the only keys that can be left out.
\<close>

theorem User_external_name_status:
  "map_of (User_external u) ''name'' = Some (StringValue (Name u))
   \<and> map_of (User_external u) ''status'' = Some (StringValue (Status u))
   \<and> map_of (User_external (u\<lparr>Name := [], Status := []\<rparr>)) ''name'' = Some (StringValue [])
   \<and> map_of (User_external (u\<lparr>Name := [], Status := []\<rparr>)) ''status'' = Some (StringValue [])
   \<and> filter (\<lambda>k. k \<notin> set (map fst (User_external u))) [''id'', ''name'', ''oauthID'', ''status'']
       = (if ID u = 0 then [''id''] else []) @ (if OAuthID u = [] then [''oauthID''] else [])"
  by (simp add: User_external_def marshal_fields_def User_fields_def omitted_def)

theorem User_external_name_status_witness:
  "User_external \<lparr>ID = 0, Name = [], OAuthID = [], Status = []\<rparr>
     = [(''name'', StringValue []), (''status'', StringValue [])]"
  using User_external_name_status [of "\<lparr>ID = 0, Name = [], OAuthID = [], Status = []\<rparr>"]
  by (simp add: User_external_def marshal_fields_def User_fields_def omitted_def)

subsection \<open>Creating a user\<close>

text \<open>
  C5. For every user u whose status fails validation, CreateUser fails with an error of
  kind Invalid, the user and the store are as before and the store was not invoked. When
  CreateUser succeeds, the user the caller holds is u with its ID set to the identifier
  that was allocated; that identifier is not the unset one and no record had it before the
  call; the store was invoked once, holds the user under that identifier and is otherwise
  as it was. CreateUser succeeds exactly when the status is valid and the identifier the
  scheme proposes is set and unused.
\<close>

theorem CreateUser_validates_first:
  "(Status_Valid (Status u) \<noteq> None \<longrightarrow>
      (\<exists>e. CreateUser str alloc u st = (Some e, u, st) \<and> Code e = EInvalid)
      \<and> invoked (snd (snd (CreateUser str alloc u st))) = invoked st)
   \<and> (fst (CreateUser str alloc u st) = None \<longrightarrow>
      Status_Valid (Status u) = None
      \<and> fst (snd (CreateUser str alloc u st)) = u\<lparr>ID := alloc (records st)\<rparr>
      \<and> ID (fst (snd (CreateUser str alloc u st))) \<noteq> 0
      \<and> records st (ID (fst (snd (CreateUser str alloc u st)))) = None
      \<and> records (snd (snd (CreateUser str alloc u st)))
          = (records st)(alloc (records st) \<mapsto> u\<lparr>ID := alloc (records st)\<rparr>)
      \<and> invoked (snd (snd (CreateUser str alloc u st))) = invoked st @ [OpCreateUser])
   \<and> (fst (CreateUser str alloc u st) = None)
      = (Status_Valid (Status u) = None \<and> alloc (records st) \<noteq> 0
         \<and> records st (alloc (records st)) = None)"
proof (cases "Status_Valid (Status u)")
  case None
  show ?thesis
  proof (cases "alloc (records st) \<noteq> 0 \<and> records st (alloc (records st)) = None")
    case True
    with None show ?thesis
      by (simp add: CreateUser_def store_insert_def Let_def)
  next
    case False
    with None have "fst (CreateUser str alloc u st) \<noteq> None"
      by (auto simp: CreateUser_def store_insert_def Let_def)
    with None False show ?thesis
      by auto
  qed
next
  case (Some e)
  then have "Code e = EInvalid"
    by (auto simp: Status_Valid_def split: if_splits)
  with Some show ?thesis
    by (simp add: CreateUser_def)
qed

theorem CreateUser_validates_first_witness:
  "Status_Valid (Status \<lparr>ID = 0, Name = ''Alice'', OAuthID = [], Status = ''pending''\<rparr>) \<noteq> None
   \<and> CreateUser (\<lambda>e. []) (\<lambda>m. Suc 0)
        \<lparr>ID = 0, Name = ''Alice'', OAuthID = [], Status = ''pending''\<rparr>
        \<lparr>records = Map.empty, invoked = []\<rparr>
      = (Some (Error EInvalid [] [] None),
         \<lparr>ID = 0, Name = ''Alice'', OAuthID = [], Status = ''pending''\<rparr>,
         \<lparr>records = Map.empty, invoked = []\<rparr>)
   \<and> fst (CreateUser (\<lambda>e. []) (\<lambda>m. Suc 0)
        \<lparr>ID = 0, Name = ''Alice'', OAuthID = [], Status = ''active''\<rparr>
        \<lparr>records = Map.empty, invoked = []\<rparr>) = None
   \<and> fst (snd (CreateUser (\<lambda>e. []) (\<lambda>m. Suc 0)
        \<lparr>ID = 0, Name = ''Alice'', OAuthID = [], Status = ''active''\<rparr>
        \<lparr>records = Map.empty, invoked = []\<rparr>))
      = \<lparr>ID = Suc 0, Name = ''Alice'', OAuthID = [], Status = ''active''\<rparr>
   \<and> invoked (snd (snd (CreateUser (\<lambda>e. []) (\<lambda>m. Suc 0)
        \<lparr>ID = 0, Name = ''Alice'', OAuthID = [], Status = ''active''\<rparr>
        \<lparr>records = Map.empty, invoked = []\<rparr>))) = [''CreateUser'']
   \<and> fst (CreateUser (\<lambda>e. []) (\<lambda>m. 0)
        \<lparr>ID = 0, Name = ''Alice'', OAuthID = [], Status = ''active''\<rparr>
        \<lparr>records = Map.empty, invoked = []\<rparr>) \<noteq> None
   \<and> fst (CreateUser (\<lambda>e. []) (\<lambda>m. Suc 0)
        \<lparr>ID = 0, Name = ''Alice'', OAuthID = [], Status = ''active''\<rparr>
        \<lparr>records = [Suc 0 \<mapsto> \<lparr>ID = Suc 0, Name = ''Bob'', OAuthID = [], Status = ''active''\<rparr>],
         invoked = []\<rparr>) \<noteq> None"
  using
    CreateUser_validates_first [of
      "\<lparr>ID = 0, Name = ''Alice'', OAuthID = [], Status = ''pending''\<rparr>"
      "\<lambda>e. []" "\<lambda>m. Suc 0" "\<lparr>records = Map.empty, invoked = []\<rparr>"]
    CreateUser_validates_first [of
      "\<lparr>ID = 0, Name = ''Alice'', OAuthID = [], Status = ''active''\<rparr>"
      "\<lambda>e. []" "\<lambda>m. Suc 0" "\<lparr>records = Map.empty, invoked = []\<rparr>"]
  by (simp add: CreateUser_def store_insert_def Status_Valid_def OpCreateUser_def Let_def)

subsection \<open>Updating a user\<close>

text \<open>
  C6. For every identifier i of an existing record r and every changeset upd, UpdateUser
  either fails, exactly when the changeset is not valid, and leaves the records as they
  were, or returns a user r' in which every field that upd holds has the value of upd and
  every other field (ID and OAuthID always, Name and Status when absent from upd) has the
  value it had in r; r' is then the record stored under i, and no other record changed.
\<close>

theorem UpdateUser_frame:
  assumes "records st i = Some r"
  shows "(case UpdateUser i upd st of
            (Inl e, st') \<Rightarrow> UserUpdate_Valid upd = Some e \<and> st' = st
          | (Inr r', st') \<Rightarrow>
              UserUpdate_Valid upd = None
              \<and> ID r' = ID r \<and> OAuthID r' = OAuthID r
              \<and> Name r' = (case upd_Name upd of None \<Rightarrow> Name r | Some n \<Rightarrow> n)
              \<and> Status r' = (case upd_Status upd of None \<Rightarrow> Status r | Some s \<Rightarrow> s)
              \<and> records st' = (records st)(i \<mapsto> r'))"
proof (cases "UserUpdate_Valid upd")
  case None
  with assms show ?thesis
    by (simp add: UpdateUser_def store_patch_def apply_update_def)
next
  case (Some e)
  then show ?thesis
    by (simp add: UpdateUser_def)
qed

theorem UpdateUser_frame_witness:
  "records \<lparr>records = [3 \<mapsto> \<lparr>ID = 3, Name = ''Alice'', OAuthID = ''gh-1'', Status = ''inactive''\<rparr>],
            invoked = []\<rparr> 3
     = Some \<lparr>ID = 3, Name = ''Alice'', OAuthID = ''gh-1'', Status = ''inactive''\<rparr>
   \<and> fst (UpdateUser 3 \<lparr>upd_Name = Some ''Bob'', upd_Status = None\<rparr>
        \<lparr>records = [3 \<mapsto> \<lparr>ID = 3, Name = ''Alice'', OAuthID = ''gh-1'', Status = ''inactive''\<rparr>],
         invoked = []\<rparr>)
     = Inr \<lparr>ID = 3, Name = ''Bob'', OAuthID = ''gh-1'', Status = ''inactive''\<rparr>
   \<and> fst (UpdateUser 3 \<lparr>upd_Name = Some ''Bob'', upd_Status = Some ''pending''\<rparr>
        \<lparr>records = [3 \<mapsto> \<lparr>ID = 3, Name = ''Alice'', OAuthID = ''gh-1'', Status = ''inactive''\<rparr>],
         invoked = []\<rparr>)
     = Inl (Error EInvalid [] [] None)"
  using
    UpdateUser_frame [of
      "\<lparr>records = [3 \<mapsto> \<lparr>ID = 3, Name = ''Alice'', OAuthID = ''gh-1'', Status = ''inactive''\<rparr>],
        invoked = []\<rparr>"
      3 "\<lparr>ID = 3, Name = ''Alice'', OAuthID = ''gh-1'', Status = ''inactive''\<rparr>"
      "\<lparr>upd_Name = Some ''Bob'', upd_Status = None\<rparr>"]
  by (simp add: UpdateUser_def store_patch_def apply_update_def UserUpdate_Valid_def
      Status_Valid_def)

subsection \<open>Creating, then finding\<close>

text \<open>
  C7. For every user u, when CreateUser succeeds and leaves the caller with the user u'
  (u with its new ID), FindUserByID of that ID in the store CreateUser left returns u':
  the Name, the OAuthID and the Status are those of u, and the ID is the one CreateUser
  assigned.
\<close>

theorem CreateUser_then_FindUserByID:
  assumes "CreateUser str alloc u st = (None, u', st')"
  shows "fst (FindUserByID (ID u') st') = Inr u'
       \<and> Name u' = Name u \<and> OAuthID u' = OAuthID u \<and> Status u' = Status u
       \<and> ID u' = alloc (records st)
       \<and> records (snd (FindUserByID (ID u') st')) = records st'"
  using assms
  by (auto simp: CreateUser_def store_insert_def FindUserByID_def store_get_def Let_def
      split: option.splits if_splits)

theorem CreateUser_then_FindUserByID_witness:
  "CreateUser (\<lambda>e. []) (\<lambda>m. 4)
      \<lparr>ID = 0, Name = ''Alice'', OAuthID = ''gh-1'', Status = ''active''\<rparr>
      \<lparr>records = Map.empty, invoked = []\<rparr>
     = (None, \<lparr>ID = 4, Name = ''Alice'', OAuthID = ''gh-1'', Status = ''active''\<rparr>,
        \<lparr>records = [4 \<mapsto> \<lparr>ID = 4, Name = ''Alice'', OAuthID = ''gh-1'', Status = ''active''\<rparr>],
         invoked = [''CreateUser'']\<rparr>)
   \<and> fst (FindUserByID 4
        \<lparr>records = [4 \<mapsto> \<lparr>ID = 4, Name = ''Alice'', OAuthID = ''gh-1'', Status = ''active''\<rparr>],
         invoked = [''CreateUser'']\<rparr>)
     = Inr \<lparr>ID = 4, Name = ''Alice'', OAuthID = ''gh-1'', Status = ''active''\<rparr>"
proof -
  have created:
    "CreateUser (\<lambda>e. []) (\<lambda>m. 4)
        \<lparr>ID = 0, Name = ''Alice'', OAuthID = ''gh-1'', Status = ''active''\<rparr>
        \<lparr>records = Map.empty, invoked = []\<rparr>
     = (None, \<lparr>ID = 4, Name = ''Alice'', OAuthID = ''gh-1'', Status = ''active''\<rparr>,
        \<lparr>records = [4 \<mapsto> \<lparr>ID = 4, Name = ''Alice'', OAuthID = ''gh-1'', Status = ''active''\<rparr>],
         invoked = [''CreateUser'']\<rparr>)"
    by (simp add: CreateUser_def store_insert_def Status_Valid_def OpCreateUser_def Let_def)
  from CreateUser_then_FindUserByID [OF created] created show ?thesis
    by simp
qed

end
